theory Spec2Isabelle
  imports Main "HOL-Library.Sublist"
begin

section \<open>JavaScript values, objects and errors\<close>

text \<open>
  The property values that the site registry and the tool handlers inspect are JSON
  scalars, or \<open>undefined\<close> for a property that is missing. On these values the strict
  comparison \<open>===\<close> of the source is equality. Numbers are the integers whose
  \<open>String(n)\<close> is their decimal notation.
\<close>

datatype jsval = JUndefined | JNull | JBool bool | JNum int | JStr string

text \<open>An object is the ordered list of its own properties.\<close>

type_synonym obj = "(string \<times> jsval) list"

text \<open>Property read \<open>o.k\<close>: a missing property reads as \<open>undefined\<close>.\<close>

definition obj_get :: "obj \<Rightarrow> string \<Rightarrow> jsval" where
  "obj_get ob k = (case map_of ob k of None \<Rightarrow> JUndefined | Some v \<Rightarrow> v)"

text \<open>Property write \<open>o.k = v\<close>: an existing property keeps its place, a new one is appended.\<close>

fun obj_set :: "string \<Rightarrow> jsval \<Rightarrow> obj \<Rightarrow> obj" where
  "obj_set k v [] = [(k, v)]"
| "obj_set k v (p # ps) = (if fst p = k then (k, v) # ps else p # obj_set k v ps)"

text \<open>Spread \<open>{...target, ...source}\<close>: the properties of the source are written in order.\<close>

definition spread :: "obj \<Rightarrow> obj \<Rightarrow> obj" where
  "spread target source = foldl (\<lambda>acc p. obj_set (fst p) (snd p) acc) target source"

text \<open>Rest destructuring \<open>const { k1, ..., ...rest } = o\<close>.\<close>

definition obj_omit :: "string list \<Rightarrow> obj \<Rightarrow> obj" where
  "obj_omit ks ob = filter (\<lambda>p. fst p \<notin> set ks) ob"

text \<open>Truthiness, as tested by \<open>!v\<close>, \<open>v && ...\<close> and \<open>v ? ... : ...\<close>.\<close>

fun truthy :: "jsval \<Rightarrow> bool" where
  "truthy JUndefined = False"
| "truthy JNull = False"
| "truthy (JBool b) = b"
| "truthy (JNum n) = (n \<noteq> 0)"
| "truthy (JStr s) = (s \<noteq> [])"

text \<open>\<open>a || b\<close> on values.\<close>

definition js_or :: "jsval \<Rightarrow> jsval \<Rightarrow> jsval" where
  "js_or a b = (if truthy a then a else b)"

function dec_nat :: "nat \<Rightarrow> string" where
  "dec_nat n = (if n < 10 then [''0123456789'' ! n]
                else dec_nat (n div 10) @ [''0123456789'' ! (n mod 10)])"
  by pat_completeness auto
termination
  by (relation "measure id") auto

declare dec_nat.simps [simp del]

text \<open>The string conversion of a template literal \<open>`${v}`\<close>.\<close>

fun to_string :: "jsval \<Rightarrow> string" where
  "to_string JUndefined = ''undefined''"
| "to_string JNull = ''null''"
| "to_string (JBool b) = (if b then ''true'' else ''false'')"
| "to_string (JNum n) = (if n < 0 then ''-'' @ dec_nat (nat (- n)) else dec_nat (nat n))"
| "to_string (JStr s) = s"

datatype js_error = Error string | TypeError string

fun message :: "js_error \<Rightarrow> string" where
  "message (Error m) = m"
| "message (TypeError m) = m"

definition dq :: string where
  "dq = [CHR 0x22]"

definition sq :: string where
  "sq = [CHR 0x27]"

text \<open>
  \<open>s.replace(/\/$/, '')\<close> on a string: one trailing slash is removed.
\<close>

definition strip_slash :: "string \<Rightarrow> string" where
  "strip_slash s = (if s \<noteq> [] \<and> last s = CHR ''/'' then butlast s else s)"

text \<open>
  The method call \<open>e.replace(/\/$/, '')\<close> on a value: only a string has the method.
  The TypeError texts are those of Node.js; \<open>expr\<close> is the source text of \<open>e\<close>.
\<close>

fun replace_slash :: "string \<Rightarrow> jsval \<Rightarrow> js_error + string" where
  "replace_slash expr (JStr s) = Inr (strip_slash s)"
| "replace_slash expr JUndefined =
     Inl (TypeError (''Cannot read properties of undefined (reading '' @ sq @ ''replace'' @ sq @ '')''))"
| "replace_slash expr JNull =
     Inl (TypeError (''Cannot read properties of null (reading '' @ sq @ ''replace'' @ sq @ '')''))"
| "replace_slash expr v = Inl (TypeError (expr @ ''.replace is not a function''))"

section \<open>Site storage (class SiteStorage)\<close>

text \<open>
  \<open>sites\<close> and \<open>activeSiteId\<close> are the two members of \<open>this.config\<close> that the class
  uses; \<open>disk\<close> is the pair last written to the configuration file by \<open>saveConfig\<close>.
\<close>

record storage =
  sites :: "obj list"
  activeSiteId :: jsval
  disk :: "(obj list \<times> jsval) option"

text \<open>
  What one operation reads from outside the program: the identifier made by \<open>uuidv4()\<close>,
  the results of its successive \<open>new Date().toISOString()\<close> calls, and the message of the
  error raised by \<open>fs.writeFileSync\<close> when the write fails.
\<close>

record env =
  uuid :: string
  now1 :: string
  now2 :: string
  write_error :: "string option"

definition saveConfig :: "env \<Rightarrow> storage \<Rightarrow> (js_error + unit) \<times> storage" where
  "saveConfig e st =
     (case write_error e of
        None \<Rightarrow> (Inr (), st\<lparr>disk := Some (sites st, activeSiteId st)\<rparr>)
      | Some m \<Rightarrow> (Inl (Error (''[SiteStorage] Failed to save configuration: '' @ m)), st))"

definition getAllSites :: "storage \<Rightarrow> obj list" where
  "getAllSites st = sites st"

text \<open>\<open>Array.prototype.find(...) || null\<close>: \<open>None\<close> is \<open>null\<close>.\<close>

definition getSiteById :: "storage \<Rightarrow> jsval \<Rightarrow> obj option" where
  "getSiteById st i = find (\<lambda>site. obj_get site ''id'' = i) (sites st)"

definition getSiteByName :: "storage \<Rightarrow> jsval \<Rightarrow> obj option" where
  "getSiteByName st n = find (\<lambda>site. obj_get site ''name'' = n) (sites st)"

fun find_url :: "string \<Rightarrow> obj list \<Rightarrow> js_error + obj option" where
  "find_url normalizedUrl [] = Inr None"
| "find_url normalizedUrl (site # rest) =
     (case replace_slash ''site.url'' (obj_get site ''url'') of
        Inl err \<Rightarrow> Inl err
      | Inr siteUrl \<Rightarrow>
          if siteUrl = normalizedUrl then Inr (Some site) else find_url normalizedUrl rest)"

definition getSiteByUrl :: "storage \<Rightarrow> jsval \<Rightarrow> js_error + obj option" where
  "getSiteByUrl st u =
     (case replace_slash ''url'' u of
        Inl err \<Rightarrow> Inl err
      | Inr normalizedUrl \<Rightarrow> find_url normalizedUrl (sites st))"

definition name_conflict :: "jsval \<Rightarrow> js_error" where
  "name_conflict n =
     Error (''[SiteStorage] A site with the name '' @ dq @ to_string n @ dq @ '' already exists'')"

definition url_conflict :: "jsval \<Rightarrow> js_error" where
  "url_conflict u =
     Error (''[SiteStorage] A site with the URL '' @ dq @ to_string u @ dq @ '' already exists'')"

definition newSite :: "env \<Rightarrow> obj \<Rightarrow> obj" where
  "newSite e site =
     [(''id'', if truthy (obj_get site ''id'') then obj_get site ''id'' else JStr (uuid e)),
      (''name'', obj_get site ''name''),
      (''url'', obj_get site ''url''),
      (''username'', obj_get site ''username''),
      (''applicationPassword'', obj_get site ''applicationPassword''),
      (''createdAt'', JStr (now1 e)),
      (''updatedAt'', JStr (now2 e))]"

definition addSite :: "env \<Rightarrow> obj \<Rightarrow> storage \<Rightarrow> (js_error + obj) \<times> storage" where
  "addSite e site st =
     (if \<not> truthy (obj_get site ''name'') then
        (Inl (Error ''[SiteStorage] Missing required field: name''), st)
      else if \<not> truthy (obj_get site ''url'') then
        (Inl (Error ''[SiteStorage] Missing required field: url''), st)
      else if getSiteByName st (obj_get site ''name'') \<noteq> None then
        (Inl (name_conflict (obj_get site ''name'')), st)
      else
        (case getSiteByUrl st (obj_get site ''url'') of
           Inl err \<Rightarrow> (Inl err, st)
         | Inr (Some found) \<Rightarrow> (Inl (url_conflict (obj_get site ''url'')), st)
         | Inr None \<Rightarrow>
             (let st1 = st\<lparr>sites := sites st @ [newSite e site]\<rparr> in
              case saveConfig e st1 of
                (Inl err, st2) \<Rightarrow> (Inl err, st2)
              | (Inr u, st2) \<Rightarrow> (Inr (newSite e site), st2))))"

text \<open>\<open>Array.prototype.findIndex\<close>: \<open>None\<close> is \<open>-1\<close>.\<close>

fun findIndex :: "('a \<Rightarrow> bool) \<Rightarrow> 'a list \<Rightarrow> nat option" where
  "findIndex P [] = None"
| "findIndex P (x # xs) =
     (if P x then Some 0 else (case findIndex P xs of None \<Rightarrow> None | Some i \<Rightarrow> Some (Suc i)))"

definition site_not_found :: "jsval \<Rightarrow> js_error" where
  "site_not_found i = Error (''[SiteStorage] Site not found: '' @ to_string i)"

definition updatedSite :: "env \<Rightarrow> obj \<Rightarrow> obj \<Rightarrow> obj" where
  "updatedSite e currentSite updates =
     obj_set ''updatedAt'' (JStr (now1 e)) (spread (spread [] currentSite) updates)"

definition updateSite :: "env \<Rightarrow> jsval \<Rightarrow> obj \<Rightarrow> storage \<Rightarrow> (js_error + obj) \<times> storage" where
  "updateSite e i updates st =
     (case findIndex (\<lambda>site. obj_get site ''id'' = i) (sites st) of
        None \<Rightarrow> (Inl (site_not_found i), st)
      | Some siteIndex \<Rightarrow>
          (let currentSite = sites st ! siteIndex in
           if truthy (obj_get updates ''name'')
              \<and> obj_get updates ''name'' \<noteq> obj_get currentSite ''name''
              \<and> getSiteByName st (obj_get updates ''name'') \<noteq> None then
             (Inl (name_conflict (obj_get updates ''name'')), st)
           else
             (case (if truthy (obj_get updates ''url'')
                       \<and> obj_get updates ''url'' \<noteq> obj_get currentSite ''url''
                    then getSiteByUrl st (obj_get updates ''url'') else Inr None) of
                Inl err \<Rightarrow> (Inl err, st)
              | Inr (Some found) \<Rightarrow> (Inl (url_conflict (obj_get updates ''url'')), st)
              | Inr None \<Rightarrow>
                  (let st1 = st\<lparr>sites := (sites st)[siteIndex := updatedSite e currentSite updates]\<rparr> in
                   case saveConfig e st1 of
                     (Inl err, st2) \<Rightarrow> (Inl err, st2)
                   | (Inr u, st2) \<Rightarrow> (Inr (updatedSite e currentSite updates), st2)))))"

definition removeSite :: "env \<Rightarrow> jsval \<Rightarrow> storage \<Rightarrow> (js_error + bool) \<times> storage" where
  "removeSite e i st =
     (case findIndex (\<lambda>site. obj_get site ''id'' = i) (sites st) of
        None \<Rightarrow> (Inr False, st)
      | Some siteIndex \<Rightarrow>
          (let st1 = st\<lparr>sites := take siteIndex (sites st) @ drop (Suc siteIndex) (sites st)\<rparr> in
           case saveConfig e st1 of
             (Inl err, st2) \<Rightarrow> (Inl err, st2)
           | (Inr u, st2) \<Rightarrow> (Inr True, st2)))"

definition setActiveSite :: "env \<Rightarrow> jsval \<Rightarrow> storage \<Rightarrow> (js_error + obj) \<times> storage" where
  "setActiveSite e i st =
     (case getSiteById st i of
        None \<Rightarrow> (Inl (site_not_found i), st)
      | Some site \<Rightarrow>
          (let st1 = st\<lparr>activeSiteId := i\<rparr> in
           case saveConfig e st1 of
             (Inl err, st2) \<Rightarrow> (Inl err, st2)
           | (Inr u, st2) \<Rightarrow> (Inr site, st2)))"

definition getActiveSite :: "storage \<Rightarrow> obj option" where
  "getActiveSite st =
     (if \<not> truthy (activeSiteId st) then None else getSiteById st (activeSiteId st))"

section \<open>Tool result envelope\<close>

text \<open>
  A value placed in the object handed to \<open>JSON.stringify\<close>: a scalar, a site object or
  \<open>null\<close>, an array of those, or data that came back from the backend.
\<close>

datatype 'd pval =
  PVal jsval | PSite "obj option" | PSites "obj option list" | PData 'd | PDatas "'d list"

text \<open>
  The \<open>text\<close> member of a content item is kept as the object that the handler encodes,
  with its properties in source order; the encoding itself (which leaves out a property
  whose value is \<open>undefined\<close>) is not modelled.
\<close>

type_synonym 'd payload = "(string \<times> 'd pval) list"

record 'd content_item =
  item_type :: string
  item_text :: "'d payload"

text \<open>\<open>isError\<close> is \<open>None\<close> where the returned object has no such member.\<close>

record 'd envelope =
  content :: "'d content_item list"
  isError :: "bool option"

definition error_envelope :: "string \<Rightarrow> 'd envelope" where
  "error_envelope msg =
     \<lparr>content = [\<lparr>item_type = ''text'',
                   item_text = [(''status'', PVal (JStr ''error'')), (''message'', PVal (JStr msg))]\<rparr>],
      isError = Some True\<rparr>"

definition success_envelope :: "'d payload \<Rightarrow> 'd envelope" where
  "success_envelope flds =
     \<lparr>content = [\<lparr>item_type = ''text'',
                   item_text = (''status'', PVal (JStr ''success'')) # flds\<rparr>],
      isError = None\<rparr>"

text \<open>
  \<open>try { ... } catch (error) { return <error envelope of error.message> }\<close> around a body
  that returns an envelope or throws.
\<close>

definition catch_envelope ::
  "(js_error + 'd envelope) \<times> storage \<Rightarrow> (js_error + 'd envelope) \<times> storage" where
  "catch_envelope r =
     (case r of
        (Inl err, st) \<Rightarrow> (Inr (error_envelope (message err)), st)
      | (Inr env, st) \<Rightarrow> (Inr env, st))"

section \<open>WordPress client and site manager (classes WordPress, SiteManager)\<close>

text \<open>
  What the constructor of \<open>WordPressClient\<close> keeps: the normalised URL and, when both
  credentials are given, the \<open>user:password\<close> string behind the Basic-Auth header.
\<close>

record wp_client =
  client_url :: string
  client_auth :: "string option"

definition new_WordPress :: "obj \<Rightarrow> js_error + wp_client" where
  "new_WordPress options =
     (if \<not> truthy (obj_get options ''url'') then
        Inl (Error ''[Client] Missing required option: url'')
      else
        (case replace_slash ''this.url'' (obj_get options ''url'') of
           Inl err \<Rightarrow> Inl err
         | Inr u \<Rightarrow>
             Inr \<lparr>client_url = u,
                  client_auth =
                    (if truthy (obj_get options ''username'')
                        \<and> truthy (obj_get options ''applicationPassword'')
                     then Some (to_string (obj_get options ''username'') @ '':''
                                @ to_string (obj_get options ''applicationPassword''))
                     else None)\<rparr>))"

text \<open>
  The backend, outside this program: \<open>validateCredentials\<close> (\<open>Some err\<close> when its
  promise rejects), the \<open>getSiteInfo\<close> and \<open>ping\<close> methods of a client, and \<open>rest_call\<close>,
  the REST request of the named post or page tool together with the fields that the
  handler copies from its response (\<open>Inl\<close> when either throws).
\<close>

record 'd backend =
  validateCredentials :: "obj \<Rightarrow> js_error option"
  client_getSiteInfo :: "wp_client \<Rightarrow> js_error + 'd"
  client_ping :: "wp_client \<Rightarrow> bool"
  rest_call :: "string \<Rightarrow> wp_client \<Rightarrow> obj \<Rightarrow> js_error + 'd payload"

text \<open>
  \<open>manager_addSite\<close> and \<open>manager_updateSite\<close> are \<open>SiteManager.addSite\<close> and
  \<open>SiteManager.updateSite\<close>; the other methods of the manager that only forward to the
  storage (\<open>getSiteById\<close>, \<open>removeSite\<close>, \<open>setActiveSite\<close>, ...) are used under the
  storage's names.
\<close>

definition validation_failed :: "js_error \<Rightarrow> js_error" where
  "validation_failed err =
     Error (''[SiteManager] Failed to validate site credentials: '' @ message err)"

definition manager_not_found :: "jsval \<Rightarrow> js_error" where
  "manager_not_found i = Error (''[SiteManager] Site not found: '' @ to_string i)"

definition manager_addSite ::
  "'d backend \<Rightarrow> env \<Rightarrow> obj \<Rightarrow> storage \<Rightarrow> (js_error + obj) \<times> storage" where
  "manager_addSite b e site st =
     (if obj_get site ''validate'' \<noteq> JBool False
         \<and> truthy (obj_get site ''username'') \<and> truthy (obj_get site ''applicationPassword'') then
        (case validateCredentials b
                [(''url'', obj_get site ''url''),
                 (''username'', obj_get site ''username''),
                 (''applicationPassword'', obj_get site ''applicationPassword'')] of
           Some err \<Rightarrow> (Inl (validation_failed err), st)
         | None \<Rightarrow> addSite e site st)
      else addSite e site st)"

definition manager_updateSite ::
  "'d backend \<Rightarrow> env \<Rightarrow> jsval \<Rightarrow> obj \<Rightarrow> storage \<Rightarrow> (js_error + obj) \<times> storage" where
  "manager_updateSite b e i updates st =
     (case getSiteById st i of
        None \<Rightarrow> (Inl (manager_not_found i), st)
      | Some currentSite \<Rightarrow>
          (let username = js_or (obj_get updates ''username'') (obj_get currentSite ''username'');
               applicationPassword = js_or (obj_get updates ''applicationPassword'')
                                           (obj_get currentSite ''applicationPassword'');
               url = js_or (obj_get updates ''url'') (obj_get currentSite ''url'');
               siteUpdates = obj_omit [''validate''] updates
           in
           if obj_get updates ''validate'' \<noteq> JBool False
              \<and> truthy username \<and> truthy applicationPassword then
             (case validateCredentials b
                     [(''url'', url), (''username'', username),
                      (''applicationPassword'', applicationPassword)] of
                Some err \<Rightarrow> (Inl (validation_failed err), st)
              | None \<Rightarrow> updateSite e i siteUpdates st)
           else updateSite e i siteUpdates st))"

definition createClientForSite :: "storage \<Rightarrow> jsval \<Rightarrow> js_error + wp_client" where
  "createClientForSite st i =
     (case getSiteById st i of
        None \<Rightarrow> Inl (manager_not_found i)
      | Some site \<Rightarrow>
          new_WordPress [(''url'', obj_get site ''url''),
                         (''username'', obj_get site ''username''),
                         (''applicationPassword'', obj_get site ''applicationPassword'')])"

definition createClientForActiveSite :: "storage \<Rightarrow> js_error + wp_client" where
  "createClientForActiveSite st =
     (case getActiveSite st of
        None \<Rightarrow> Inl (Error ''[SiteManager] No active site set'')
      | Some activeSite \<Rightarrow> createClientForSite st (obj_get activeSite ''id''))"

definition testSiteConnectivity :: "'d backend \<Rightarrow> storage \<Rightarrow> jsval \<Rightarrow> js_error + bool" where
  "testSiteConnectivity b st i =
     (case createClientForSite st i of
        Inl err \<Rightarrow> Inl err
      | Inr client \<Rightarrow> Inr (client_ping b client))"

definition getSiteInfo :: "'d backend \<Rightarrow> storage \<Rightarrow> jsval \<Rightarrow> js_error + 'd" where
  "getSiteInfo b st i =
     (case createClientForSite st i of
        Inl err \<Rightarrow> Inl err
      | Inr client \<Rightarrow> client_getSiteInfo b client)"

text \<open>
  Calling a method that the receiver does not have. Class \<open>SiteManager\<close> defines no
  \<open>createClientForWoocommerce\<close>, and the value \<open>false\<close> has no \<open>get\<close>, \<open>post\<close>, \<open>put\<close> or
  \<open>delete\<close>; \<open>expr\<close> is the source text of the callee.
\<close>

definition not_a_function :: "string \<Rightarrow> js_error" where
  "not_a_function expr = TypeError (expr @ '' is not a function'')"

section \<open>Site management tools (registerSiteTools)\<close>

text \<open>
  A tool handler takes \<open>request.params.arguments\<close>, which the dispatcher passes on as it
  is: \<open>None\<close> is \<open>undefined\<close>, the value when the request carries no arguments. The
  backend, the environment and the storage of the site manager that the handler closes
  over are passed explicitly. \<open>Inl\<close> is an exception that leaves the handler (for an
  \<open>async\<close> handler, a rejected promise).
\<close>

type_synonym 'd handler =
  "obj option \<Rightarrow> 'd backend \<Rightarrow> env \<Rightarrow> storage \<Rightarrow> (js_error + 'd envelope) \<times> storage"

text \<open>
  The TypeError of reading \<open>args.k\<close> when \<open>args\<close> is \<open>undefined\<close>. Several handlers
  read a property of \<open>args\<close> for their log line before they enter \<open>try\<close>.
\<close>

definition undefined_read :: "string \<Rightarrow> js_error" where
  "undefined_read k =
     TypeError (''Cannot read properties of undefined (reading '' @ sq @ k @ sq @ '')'')"

text \<open>The parameter default \<open>includeCredentials = false\<close> applies to \<open>undefined\<close>.\<close>

definition filterCredentials :: "obj option \<Rightarrow> jsval \<Rightarrow> obj option" where
  "filterCredentials site includeCredentials =
     (case site of
        None \<Rightarrow> None
      | Some s \<Rightarrow>
          (let inc = (if includeCredentials = JUndefined then JBool False else includeCredentials);
               filteredSite = obj_omit [''applicationPassword''] s
           in if \<not> truthy inc then Some filteredSite else Some s))"

text \<open>\<open>add_site\<close> logs \<open>args.name\<close> before \<open>try\<close>.\<close>

definition add_site_handler :: "'d handler" where
  "add_site_handler args b e st =
     (case args of
        None \<Rightarrow> (Inl (undefined_read ''name''), st)
      | Some a \<Rightarrow>
          catch_envelope
            (case manager_addSite b e a st of
               (Inl err, st') \<Rightarrow> (Inl err, st')
             | (Inr site, st') \<Rightarrow>
                 (Inr (success_envelope
                        [(''message'', PVal (JStr (''Site '' @ dq @ to_string (obj_get a ''name'') @ dq
                                                    @ '' added successfully''))),
                         (''site'', PSite (filterCredentials (Some site)
                                             (obj_get a ''includeCredentials'')))]), st')))"

text \<open>
  \<open>list_sites\<close> reads \<open>args.includeCredentials\<close> inside \<open>try\<close>, in the callback of
  \<open>map\<close>, which runs once for each stored site.
\<close>

definition list_sites_handler :: "'d handler" where
  "list_sites_handler args b e st =
     catch_envelope
       (case args of
          None \<Rightarrow>
            if getAllSites st = [] then
              (Inr (success_envelope [(''count'', PVal (JNum 0)), (''sites'', PSites [])]), st)
            else (Inl (undefined_read ''includeCredentials''), st)
        | Some a \<Rightarrow>
            (let sites = map (\<lambda>site. filterCredentials (Some site) (obj_get a ''includeCredentials''))
                             (getAllSites st)
             in (Inr (success_envelope
                       [(''count'', PVal (JNum (int (length sites)))), (''sites'', PSites sites)]), st)))"

text \<open>\<open>get_site\<close> logs \<open>args.id || args.name\<close> before \<open>try\<close>.\<close>

definition get_site_handler :: "'d handler" where
  "get_site_handler args b e st =
     (case args of
        None \<Rightarrow> (Inl (undefined_read ''id''), st)
      | Some a \<Rightarrow>
          catch_envelope
            (let site = (if truthy (obj_get a ''id'') then getSiteById st (obj_get a ''id'')
                         else if truthy (obj_get a ''name'') then getSiteByName st (obj_get a ''name'')
                         else None)
             in case site of
                  None \<Rightarrow>
                    (Inr (error_envelope (''Site not found: ''
                            @ to_string (js_or (obj_get a ''id'') (obj_get a ''name'')))), st)
                | Some s \<Rightarrow>
                    (Inr (success_envelope
                           [(''site'', PSite (filterCredentials (Some s)
                                                (obj_get a ''includeCredentials'')))]), st)))"

text \<open>\<open>update_site\<close>, \<open>remove_site\<close> and \<open>select_site\<close> log \<open>args.id\<close> before \<open>try\<close>.\<close>

definition update_site_handler :: "'d handler" where
  "update_site_handler args b e st =
     (case args of
        None \<Rightarrow> (Inl (undefined_read ''id''), st)
      | Some a \<Rightarrow>
          catch_envelope
            (let i = obj_get a ''id''; updates = obj_omit [''id''] a in
             case manager_updateSite b e i updates st of
               (Inl err, st') \<Rightarrow> (Inl err, st')
             | (Inr site, st') \<Rightarrow>
                 (Inr (success_envelope
                        [(''message'', PVal (JStr (''Site '' @ dq @ to_string (obj_get site ''name'') @ dq
                                                    @ '' updated successfully''))),
                         (''site'', PSite (filterCredentials (Some site)
                                             (obj_get a ''includeCredentials'')))]), st')))"

definition remove_site_handler :: "'d handler" where
  "remove_site_handler args b e st =
     (case args of
        None \<Rightarrow> (Inl (undefined_read ''id''), st)
      | Some a \<Rightarrow>
          catch_envelope
            (case removeSite e (obj_get a ''id'') st of
               (Inl err, st') \<Rightarrow> (Inl err, st')
             | (Inr success, st') \<Rightarrow>
                 if \<not> success then
                   (Inr (error_envelope (''Site not found: '' @ to_string (obj_get a ''id''))), st')
                 else
                   (Inr (success_envelope
                          [(''message'', PVal (JStr ''Site removed successfully''))]), st')))"

definition select_site_handler :: "'d handler" where
  "select_site_handler args b e st =
     (case args of
        None \<Rightarrow> (Inl (undefined_read ''id''), st)
      | Some a \<Rightarrow>
          catch_envelope
            (case setActiveSite e (obj_get a ''id'') st of
               (Inl err, st') \<Rightarrow> (Inl err, st')
             | (Inr site, st') \<Rightarrow>
                 (Inr (success_envelope
                        [(''message'', PVal (JStr (''Site '' @ dq @ to_string (obj_get site ''name'') @ dq
                                                    @ '' selected as active site''))),
                         (''site'', PSite (filterCredentials (Some site)
                                             (obj_get a ''includeCredentials'')))]), st')))"

text \<open>
  \<open>get_active_site\<close> reads \<open>args.includeCredentials\<close> inside \<open>try\<close>, once an active
  site is found.
\<close>

definition get_active_site_handler :: "'d handler" where
  "get_active_site_handler args b e st =
     catch_envelope
       (case getActiveSite st of
          None \<Rightarrow> (Inr (error_envelope ''No active site set''), st)
        | Some site \<Rightarrow>
            (case args of
               None \<Rightarrow> (Inl (undefined_read ''includeCredentials''), st)
             | Some a \<Rightarrow>
                 (Inr (success_envelope
                        [(''site'', PSite (filterCredentials (Some site)
                                             (obj_get a ''includeCredentials'')))]), st)))"

text \<open>\<open>test_site_connectivity\<close> and \<open>get_site_info\<close> log \<open>args.id\<close> before \<open>try\<close>.\<close>

definition test_site_connectivity_handler :: "'d handler" where
  "test_site_connectivity_handler args b e st =
     (case args of
        None \<Rightarrow> (Inl (undefined_read ''id''), st)
      | Some a \<Rightarrow>
          catch_envelope
            (case testSiteConnectivity b st (obj_get a ''id'') of
               Inl err \<Rightarrow> (Inl err, st)
             | Inr reachable \<Rightarrow>
                 (Inr (success_envelope
                        [(''reachable'', PVal (JBool reachable)),
                         (''message'', PVal (JStr (if reachable then ''Site is reachable''
                                                   else ''Site is not reachable'')))]), st)))"

definition get_site_info_handler :: "'d handler" where
  "get_site_info_handler args b e st =
     (case args of
        None \<Rightarrow> (Inl (undefined_read ''id''), st)
      | Some a \<Rightarrow>
          catch_envelope
            (case getSiteInfo b st (obj_get a ''id'') of
               Inl err \<Rightarrow> (Inl err, st)
             | Inr info \<Rightarrow> (Inr (success_envelope [(''info'', PData info)]), st)))"

definition site_handlers :: "(string \<times> 'd handler) list" where
  "site_handlers =
     [(''add_site'', add_site_handler),
      (''list_sites'', list_sites_handler),
      (''get_site'', get_site_handler),
      (''update_site'', update_site_handler),
      (''remove_site'', remove_site_handler),
      (''select_site'', select_site_handler),
      (''get_active_site'', get_active_site_handler),
      (''test_site_connectivity'', test_site_connectivity_handler),
      (''get_site_info'', get_site_info_handler)]"

section \<open>WooCommerce product and order tools\<close>

definition woo_client :: "obj \<Rightarrow> js_error + jsval" where
  "woo_client args =
     (if truthy (obj_get args ''site_id'')
      then Inl (not_a_function ''siteManager.createClientForWoocommerce'')
      else Inr (JBool False))"

text \<open>
  The call \<open>client.m(path, data)\<close> on a scalar receiver, which has none of the methods
  \<open>get\<close>, \<open>post\<close>, \<open>put\<close>, \<open>delete\<close>.
\<close>

definition woo_request :: "string \<Rightarrow> jsval \<Rightarrow> string \<Rightarrow> string \<Rightarrow> obj \<Rightarrow> js_error + 'r" where
  "woo_request expr client m path data =
     (case client of
        JUndefined \<Rightarrow>
          Inl (TypeError (''Cannot read properties of undefined (reading '' @ sq @ m @ sq @ '')''))
      | JNull \<Rightarrow>
          Inl (TypeError (''Cannot read properties of null (reading '' @ sq @ m @ sq @ '')''))
      | _ \<Rightarrow> Inl (not_a_function (expr @ ''.'' @ m)))"

text \<open>\<open>{k1, ..., kn}\<close> built from the destructured arguments, then without the undefined ones.\<close>

definition pick :: "string list \<Rightarrow> obj \<Rightarrow> obj" where
  "pick ks args = map (\<lambda>k. (k, obj_get args k)) ks"

definition defined_props :: "obj \<Rightarrow> obj" where
  "defined_props ob = filter (\<lambda>p. snd p \<noteq> JUndefined) ob"

text \<open>
  The body shared by the WooCommerce handlers. Their log line prints \<open>args\<close> itself and
  reads no property of it; the first read, \<open>args.site_id\<close>, is inside \<open>try\<close>, followed by
  the client, the request data, the request \<open>expr.m(path, data)\<close> and the success fields
  built from the response.
\<close>

definition woo_tool ::
  "string \<Rightarrow> string \<Rightarrow> (obj \<Rightarrow> string) \<Rightarrow> (obj \<Rightarrow> obj) \<Rightarrow> (obj \<Rightarrow> 'r \<Rightarrow> 'd payload) \<Rightarrow> 'd handler" where
  "woo_tool expr m path data flds args b e st =
     catch_envelope
       (case args of
          None \<Rightarrow> (Inl (undefined_read ''site_id''), st)
        | Some a \<Rightarrow>
            (case woo_client a of
               Inl err \<Rightarrow> (Inl err, st)
             | Inr client \<Rightarrow>
                 (case woo_request expr client m (path a) (data a) of
                    Inl err \<Rightarrow> (Inl err, st)
                  | Inr response \<Rightarrow> (Inr (success_envelope (flds a response)), st))))"

definition list_fields :: "string \<Rightarrow> obj \<Rightarrow> 'd list \<Rightarrow> 'd payload" where
  "list_fields k args response =
     [(''count'', PVal (JNum (int (length response)))), (k, PDatas response)]"

definition item_fields :: "string \<Rightarrow> (obj \<Rightarrow> string) \<Rightarrow> obj \<Rightarrow> 'd \<Rightarrow> 'd payload" where
  "item_fields k msg args response = [(''message'', PVal (JStr (msg args))), (k, PData response)]"

definition list_products_params :: "obj \<Rightarrow> obj" where
  "list_products_params args =
     defined_props (pick [''per_page'', ''page'', ''search'', ''category'', ''order'', ''orderby''] args)"

definition list_products_handler :: "'d handler" where
  "list_products_handler =
     woo_tool ''client'' ''get'' (\<lambda>args. ''products'') list_products_params (list_fields ''products'')"

definition create_product_handler :: "'d handler" where
  "create_product_handler =
     woo_tool ''client'' ''post'' (\<lambda>args. ''products'')
       (\<lambda>args. defined_props (pick [''name'', ''type'', ''regular_price'', ''description'',
                                      ''short_description'', ''categories'', ''images''] args))
       (item_fields ''product''
          (\<lambda>args. ''Product '' @ sq @ to_string (obj_get args ''name'') @ sq @ '' created successfully''))"

definition update_product_handler :: "'d handler" where
  "update_product_handler =
     woo_tool ''client'' ''put'' (\<lambda>args. ''products/'' @ to_string (obj_get args ''id''))
       (\<lambda>args. defined_props (pick [''name'', ''type'', ''regular_price'', ''cost'', ''description'',
                                      ''short_description'', ''categories'', ''images''] args))
       (item_fields ''product''
          (\<lambda>args. ''Product '' @ sq @ to_string (obj_get args ''id'') @ sq @ '' updated successfully''))"

definition delete_product_handler :: "'d handler" where
  "delete_product_handler =
     woo_tool ''client'' ''delete'' (\<lambda>args. ''products/'' @ to_string (obj_get args ''id''))
       (\<lambda>args. [(''force'', JBool True)])
       (item_fields ''product''
          (\<lambda>args. ''Product '' @ sq @ to_string (obj_get args ''id'') @ sq @ '' deleted successfully''))"

definition product_handlers :: "(string \<times> 'd handler) list" where
  "product_handlers =
     [(''list_products'', list_products_handler),
      (''create_product'', create_product_handler),
      (''update_product'', update_product_handler),
      (''delete_product'', delete_product_handler)]"

definition list_orders_handler :: "'d handler" where
  "list_orders_handler =
     woo_tool ''client'' ''get'' (\<lambda>args. ''orders'')
       (\<lambda>args. defined_props (pick [''per_page'', ''page'', ''search'', ''status'', ''order'',
                                      ''orderby''] args))
       (list_fields ''orders'')"

definition create_order_handler :: "'d handler" where
  "create_order_handler =
     woo_tool ''client'' ''post'' (\<lambda>args. ''orders'')
       (\<lambda>args. defined_props (pick [''customer_id'', ''line_items'', ''status'', ''total''] args))
       (item_fields ''order'' (\<lambda>args. ''Order created successfully''))"

definition update_order_handler :: "'d handler" where
  "update_order_handler =
     woo_tool ''client'' ''put'' (\<lambda>args. ''orders/'' @ to_string (obj_get args ''id''))
       (\<lambda>args. defined_props (pick [''status'', ''total'', ''line_items''] args))
       (item_fields ''order''
          (\<lambda>args. ''Order '' @ sq @ to_string (obj_get args ''id'') @ sq @ '' updated successfully''))"

definition delete_order_handler :: "'d handler" where
  "delete_order_handler =
     woo_tool ''client'' ''delete'' (\<lambda>args. ''orders/'' @ to_string (obj_get args ''id''))
       (\<lambda>args. [(''force'', JBool True)])
       (item_fields ''order''
          (\<lambda>args. ''Order '' @ sq @ to_string (obj_get args ''id'') @ sq @ '' deleted successfully''))"

definition order_handlers :: "(string \<times> 'd handler) list" where
  "order_handlers =
     [(''list_orders'', list_orders_handler),
      (''create_order'', create_order_handler),
      (''update_order'', update_order_handler),
      (''delete_order'', delete_order_handler)]"

subsection \<open>The CallTool handler that registerWooProductTools installs itself\<close>

definition product_tool_names :: "string list" where
  "product_tool_names = [''list_products'', ''create_product'', ''update_product'', ''delete_product'']"

text \<open>The client of the given site, or of the active one.\<close>

definition wp_client_for :: "obj \<Rightarrow> storage \<Rightarrow> js_error + wp_client" where
  "wp_client_for args st =
     (if truthy (obj_get args ''site_id'')
      then createClientForSite st (obj_get args ''site_id'')
      else createClientForActiveSite st)"

definition listProducts :: "'d handler" where
  "listProducts =
     woo_tool ''wc_client'' ''get'' (\<lambda>args. ''products'') list_products_params (list_fields ''products'')"

definition createProduct :: "'d handler" where
  "createProduct =
     woo_tool ''wc_client'' ''post'' (\<lambda>args. ''products'')
       (\<lambda>args. defined_props (pick [''name'', ''type'', ''regular_price'', ''description'',
                                      ''short_description'', ''categories'', ''images''] args))
       (item_fields ''product''
          (\<lambda>args. ''Product '' @ sq @ to_string (obj_get args ''name'') @ sq @ '' created successfully''))"

definition updateProduct :: "'d handler" where
  "updateProduct =
     woo_tool ''wc_client'' ''put'' (\<lambda>args. ''products/'' @ to_string (obj_get args ''id''))
       (\<lambda>args. defined_props (pick [''name'', ''type'', ''regular_price'', ''description'',
                                      ''short_description'', ''categories'', ''images''] args))
       (item_fields ''product''
          (\<lambda>args. ''Product '' @ sq @ to_string (obj_get args ''id'') @ sq @ '' updated successfully''))"

definition deleteProduct :: "'d handler" where
  "deleteProduct =
     woo_tool ''wc_client'' ''delete'' (\<lambda>args. ''products/'' @ to_string (obj_get args ''id''))
       (\<lambda>args. [(''force'', JBool True)])
       (item_fields ''product''
          (\<lambda>args. ''Product '' @ sq @ to_string (obj_get args ''id'') @ sq @ '' deleted successfully''))"

text \<open>
  \<open>next\<close> is the result of \<open>request.next()\<close> where the request carries such a function,
  \<open>None\<close> where it does not. The log line prints \<open>args\<close> itself; \<open>args.site_id\<close> is read
  inside \<open>try\<close>.
\<close>

definition woo_product_callTool ::
  "((js_error + 'd envelope) \<times> storage) option \<Rightarrow> string \<Rightarrow> 'd handler" where
  "woo_product_callTool next nm args b e st =
     (if nm \<notin> set product_tool_names then
        (case next of
           Some r \<Rightarrow> r
         | None \<Rightarrow> (Inr (error_envelope (''Unknown tool: '' @ nm)), st))
      else
        catch_envelope
          (case args of
             None \<Rightarrow> (Inl (undefined_read ''site_id''), st)
           | Some a \<Rightarrow>
               (case wp_client_for a st of
                  Inl err \<Rightarrow> (Inl err, st)
                | Inr client \<Rightarrow>
                    if nm = ''list_products'' then listProducts args b e st
                    else if nm = ''create_product'' then createProduct args b e st
                    else if nm = ''update_product'' then updateProduct args b e st
                    else if nm = ''delete_product'' then deleteProduct args b e st
                    else (Inl (Error (''Tool not implemented: '' @ nm)), st))))"

section \<open>Post and page tools\<close>

text \<open>
  The ten handlers of registerPostTools and registerPageTools share one body. \<open>logged\<close> is
  the property of \<open>args\<close> that the handler reads for its log line before \<open>try\<close>
  (\<open>list_posts\<close> and \<open>list_pages\<close> read none). Inside \<open>try\<close> come the read of
  \<open>args.site_id\<close>, the client of the given or the active site, and the REST request of
  the tool with the fields taken from its response.
\<close>

definition wp_tool :: "string \<Rightarrow> string option \<Rightarrow> 'd handler" where
  "wp_tool tool logged args b e st =
     (case (args, logged) of
        (None, Some k) \<Rightarrow> (Inl (undefined_read k), st)
      | _ \<Rightarrow>
          catch_envelope
            (case args of
               None \<Rightarrow> (Inl (undefined_read ''site_id''), st)
             | Some a \<Rightarrow>
                 (case wp_client_for a st of
                    Inl err \<Rightarrow> (Inl err, st)
                  | Inr client \<Rightarrow>
                      (case rest_call b tool client a of
                         Inl err \<Rightarrow> (Inl err, st)
                       | Inr flds \<Rightarrow> (Inr (success_envelope flds), st)))))"

definition post_handlers :: "(string \<times> 'd handler) list" where
  "post_handlers =
     [(''list_posts'', wp_tool ''list_posts'' None),
      (''get_post'', wp_tool ''get_post'' (Some ''post_id'')),
      (''create_post'', wp_tool ''create_post'' (Some ''title'')),
      (''update_post'', wp_tool ''update_post'' (Some ''post_id'')),
      (''delete_post'', wp_tool ''delete_post'' (Some ''post_id''))]"

definition page_handlers :: "(string \<times> 'd handler) list" where
  "page_handlers =
     [(''list_pages'', wp_tool ''list_pages'' None),
      (''get_page'', wp_tool ''get_page'' (Some ''page_id'')),
      (''create_page'', wp_tool ''create_page'' (Some ''title'')),
      (''update_page'', wp_tool ''update_page'' (Some ''page_id'')),
      (''delete_page'', wp_tool ''delete_page'' (Some ''page_id''))]"

section \<open>The server (class WordPressMcpServer)\<close>

record 's toolDefinition =
  name :: string
  description :: string
  inputSchema :: 's

text \<open>\<open>toolHandlers\<close> is a \<open>Map\<close>, \<open>toolDefinitions\<close> an array.\<close>

record ('h, 's) server =
  toolHandlers :: "string \<rightharpoonup> 'h"
  toolDefinitions :: "'s toolDefinition list"

definition new_server :: "('h, 's) server" where
  "new_server = \<lparr>toolHandlers = Map.empty, toolDefinitions = []\<rparr>"

definition registerToolHandler :: "('h, 's) server \<Rightarrow> string \<Rightarrow> 'h \<Rightarrow> ('h, 's) server" where
  "registerToolHandler srv toolName h = srv\<lparr>toolHandlers := (toolHandlers srv)(toolName \<mapsto> h)\<rparr>"

definition registerToolDefinition :: "('h, 's) server \<Rightarrow> 's toolDefinition \<Rightarrow> ('h, 's) server" where
  "registerToolDefinition srv d = srv\<lparr>toolDefinitions := toolDefinitions srv @ [d]\<rparr>"

definition registerToolDefinitions ::
  "('h, 's) server \<Rightarrow> 's toolDefinition list \<Rightarrow> ('h, 's) server" where
  "registerToolDefinitions srv ds = foldl registerToolDefinition srv ds"

text \<open>
  The two request handlers of \<open>registerCentralizedToolHandlers\<close>. The CallTool handler
  passes \<open>request.params.arguments\<close> to the tool handler unchanged, also when the
  request has none.
\<close>

definition callTool ::
  "('d handler, 's) server \<Rightarrow> string \<Rightarrow> 'd handler" where
  "callTool srv nm args b e st =
     (case toolHandlers srv nm of
        Some h \<Rightarrow> h args b e st
      | None \<Rightarrow> (Inl (Error (''Unknown tool: '' @ nm)), st))"

definition listTools :: "('h, 's) server \<Rightarrow> 's toolDefinition list" where
  "listTools srv = toolDefinitions srv"

text \<open>
  The handler registrations of \<open>registerTools\<close>, in the order of its calls: site, post,
  page, product and order tools.
\<close>

definition registerTools :: "('d handler, 's) server \<Rightarrow> ('d handler, 's) server" where
  "registerTools srv =
     foldl (\<lambda>s p. registerToolHandler s (fst p) (snd p)) srv
       (site_handlers @ post_handlers @ page_handlers @ product_handlers @ order_handlers)"

section \<open>Example data\<close>

definition env0 :: env where
  "env0 = \<lparr>uuid = ''u-1'', now1 = ''t1'', now2 = ''t2'', write_error = None\<rparr>"

definition site_a :: obj where
  "site_a = [(''id'', JStr ''1''), (''name'', JStr ''A''), (''url'', JStr ''https://a.test''),
             (''username'', JStr ''ann''), (''applicationPassword'', JStr ''pw''),
             (''createdAt'', JStr ''t0''), (''updatedAt'', JStr ''t0'')]"

definition store_a :: storage where
  "store_a = \<lparr>sites = [site_a], activeSiteId = JUndefined, disk = None\<rparr>"

definition store_empty :: storage where
  "store_empty = \<lparr>sites = [], activeSiteId = JUndefined, disk = None\<rparr>"


text \<open>A backend whose every call succeeds.\<close>

definition backend_ok :: "unit backend" where
  "backend_ok =
     \<lparr>validateCredentials = (\<lambda>c. None),
      client_getSiteInfo = (\<lambda>c. Inr ()),
      client_ping = (\<lambda>c. True),
      rest_call = (\<lambda>t c a. Inr [(''data'', PData ())])\<rparr>"

definition site_slash :: obj where
  "site_slash = [(''name'', JStr ''B''), (''url'', JStr ''https://a.test/'')]"

definition site_case :: obj where
  "site_case = [(''name'', JStr ''B''), (''url'', JStr ''https://A.test'')]"

definition site_same_name :: obj where
  "site_same_name = [(''name'', JStr ''A''), (''url'', JStr ''https://b.test'')]"

definition site_b :: obj where
  "site_b = [(''name'', JStr ''B''), (''url'', JStr ''https://b.test''), (''username'', JStr ''bob''),
             (''consumerKey'', JStr ''ck''), (''consumerSecret'', JStr ''cs'')]"

definition site_b_id1 :: obj where
  "site_b_id1 = [(''id'', JStr ''1''), (''name'', JStr ''B''), (''url'', JStr ''https://b.test'')]"

definition server0 :: "(unit handler, unit) server" where
  "server0 = registerTools new_server"

abbreviation shaped :: "(js_error + 'd envelope) \<times> storage \<Rightarrow> bool" where
  "shaped r \<equiv>
     (\<exists>s flds ie st'.
        r = (Inr \<lparr>content = [\<lparr>item_type = ''text'',
                               item_text = (''status'', PVal (JStr s)) # flds\<rparr>],
                   isError = ie\<rparr>, st')
        \<and> ((s = ''success'' \<and> ie = None)
            \<or> (s = ''error'' \<and> ie = Some True \<and> (\<exists>m. flds = [(''message'', PVal (JStr m))]))))"

abbreviation site_view :: "jsval \<Rightarrow> obj \<Rightarrow> obj" where
  "site_view includeCredentials site \<equiv>
     (if includeCredentials = JBool True then site
      else filter (\<lambda>p. fst p \<noteq> ''applicationPassword'') site)"

definition add_args :: obj where
  "add_args = [(''name'', JStr ''B''), (''url'', JStr ''https://b.test''),
               (''username'', JStr ''bob''), (''applicationPassword'', JStr ''pw'')]"

definition store_active :: storage where
  "store_active = \<lparr>sites = [site_a], activeSiteId = JStr ''1'', disk = None\<rparr>"

definition update_args :: obj where
  "update_args = [(''id'', JStr ''1''), (''username'', JStr ''amy''), (''validate'', JBool False)]"



section \<open>Properties of the site storage\<close>

lemma find_snoc: "\<forall>x\<in>set xs. \<not> P x \<Longrightarrow> P y \<Longrightarrow> find P (xs @ [y]) = Some y"
  by (induction xs) auto

lemma find_none: "\<forall>x\<in>set xs. \<not> P x \<Longrightarrow> find P xs = None"
  by (induction xs) auto

lemma find_some: "\<exists>x\<in>set xs. P x \<Longrightarrow> find P xs \<noteq> None"
  by (induction xs) auto

lemma findIndex_snoc:
  "\<forall>x\<in>set xs. \<not> P x \<Longrightarrow> P y \<Longrightarrow> findIndex P (xs @ [y]) = Some (length xs)"
  by (induction xs) auto

lemma find_url_none:
  "\<forall>s\<in>set xs. \<exists>v. obj_get s ''url'' = JStr v \<and> strip_slash v \<noteq> n \<Longrightarrow> find_url n xs = Inr None"
  by (induction xs) auto

lemma find_url_snoc:
  "\<forall>s\<in>set xs. \<exists>v. obj_get s ''url'' = JStr v \<and> strip_slash v \<noteq> n \<Longrightarrow>
   obj_get y ''url'' = JStr u \<Longrightarrow> strip_slash u = n \<Longrightarrow> find_url n (xs @ [y]) = Inr (Some y)"
  by (induction xs) auto

lemma find_url_some:
  "\<forall>s\<in>set xs. \<exists>v. obj_get s ''url'' = JStr v \<Longrightarrow>
   \<exists>s\<in>set xs. \<exists>v. obj_get s ''url'' = JStr v \<and> strip_slash v = n \<Longrightarrow>
   \<exists>s. find_url n xs = Inr (Some s)"
  by (induction xs) (auto, blast)

lemma already_exists_sublist: "sublist ''already exists'' (p @ '' already exists'')"
  unfolding sublist_def by (rule exI [of _ "p @ '' ''"], rule exI [of _ "[]"]) simp

lemma obj_get_newSite_name: "obj_get (newSite e site) ''name'' = obj_get site ''name''"
  by (simp add: newSite_def obj_get_def)

lemma obj_get_newSite_url: "obj_get (newSite e site) ''url'' = obj_get site ''url''"
  by (simp add: newSite_def obj_get_def)

text \<open>
  C4, as amended. A candidate with a non-empty name and url is refused by \<open>addSite\<close> with
  an error whose message contains "already exists", the store unchanged, when its name
  equals the name of a stored record, or when its url is a string that equals the url of a
  stored record after one trailing slash is removed from each (the stored urls being
  strings).
\<close>

theorem addSite_conflict:
  assumes "truthy (obj_get site ''name'')" and "truthy (obj_get site ''url'')"
    and "(\<exists>s\<in>set (sites st). obj_get s ''name'' = obj_get site ''name'')
         \<or> (\<exists>u. obj_get site ''url'' = JStr u
                 \<and> (\<forall>s\<in>set (sites st). \<exists>v. obj_get s ''url'' = JStr v)
                 \<and> (\<exists>s\<in>set (sites st). \<exists>v. obj_get s ''url'' = JStr v
                                             \<and> strip_slash v = strip_slash u))"
  shows "\<exists>m. addSite e site st = (Inl (Error m), st) \<and> sublist ''already exists'' m"
proof (cases "getSiteByName st (obj_get site ''name'') = None")
  case False
  with assms(1,2) have "addSite e site st = (Inl (name_conflict (obj_get site ''name'')), st)"
    by (simp add: addSite_def)
  then show ?thesis
    unfolding name_conflict_def using already_exists_sublist
    by (metis append.assoc)
next
  case True
  then have "\<not> (\<exists>s\<in>set (sites st). obj_get s ''name'' = obj_get site ''name'')"
    using find_some [of "sites st" "\<lambda>s. obj_get s ''name'' = obj_get site ''name''"]
    by (auto simp: getSiteByName_def)
  with assms(3) obtain u where u: "obj_get site ''url'' = JStr u"
    and strs: "\<forall>s\<in>set (sites st). \<exists>v. obj_get s ''url'' = JStr v"
    and hit: "\<exists>s\<in>set (sites st). \<exists>v. obj_get s ''url'' = JStr v \<and> strip_slash v = strip_slash u"
    by blast
  from find_url_some [OF strs hit] obtain s where "find_url (strip_slash u) (sites st) = Inr (Some s)"
    by blast
  with True assms(1,2) u have "addSite e site st = (Inl (url_conflict (obj_get site ''url'')), st)"
    by (simp add: addSite_def getSiteByUrl_def)
  then show ?thesis
    unfolding url_conflict_def using already_exists_sublist
    by (metis append.assoc)
qed

theorem addSite_conflict_witness:
  "(\<exists>m. addSite env0 site_slash store_a = (Inl (Error m), store_a) \<and> sublist ''already exists'' m)
   \<and> (\<exists>m. addSite env0 site_same_name store_a = (Inl (Error m), store_a) \<and> sublist ''already exists'' m)"
  using addSite_conflict [of site_slash store_a env0] addSite_conflict [of site_same_name store_a env0]
  by (simp add: site_slash_def site_same_name_def store_a_def site_a_def obj_get_def strip_slash_def)

theorem addSite_letter_case_counterexample:
  "obj_get site_a ''url'' = JStr ''https://a.test''
   \<and> obj_get site_case ''url'' = JStr ''https://A.test''
   \<and> fst (addSite env0 site_case store_a) = Inr (newSite env0 site_case)"
  by (simp add: addSite_def site_case_def store_a_def site_a_def obj_get_def strip_slash_def
      getSiteByName_def getSiteByUrl_def saveConfig_def env0_def)

text \<open>
  C6, as amended. A site object with a non-empty name, a non-empty string url, no name or
  url shared with a stored record (the stored urls being strings), and an id, given or
  generated, that no stored record has, is added by \<open>addSite\<close> when the write succeeds;
  \<open>getSiteById\<close> with the returned id, \<open>getSiteByName\<close> with its name and
  \<open>getSiteByUrl\<close> with its url then return the record that \<open>addSite\<close> returned, and
  after \<open>removeSite\<close> with that id, which returns true, \<open>getSiteById\<close> returns null.
\<close>

theorem add_then_lookup:
  assumes nm: "truthy (obj_get site ''name'')"
    and url: "obj_get site ''url'' = JStr u" "u \<noteq> []"
    and no_name: "\<forall>s\<in>set (sites st). obj_get s ''name'' \<noteq> obj_get site ''name''"
    and no_url: "\<forall>s\<in>set (sites st). \<exists>v. obj_get s ''url'' = JStr v \<and> strip_slash v \<noteq> strip_slash u"
    and fresh: "\<forall>s\<in>set (sites st). obj_get s ''id'' \<noteq> obj_get (newSite e site) ''id''"
    and wr: "write_error e = None" "write_error e' = None"
  shows "\<exists>r st'. addSite e site st = (Inr r, st')
           \<and> getSiteById st' (obj_get r ''id'') = Some r
           \<and> getSiteByName st' (obj_get site ''name'') = Some r
           \<and> getSiteByUrl st' (obj_get site ''url'') = Inr (Some r)
           \<and> fst (removeSite e' (obj_get r ''id'') st') = Inr True
           \<and> getSiteById (snd (removeSite e' (obj_get r ''id'') st')) (obj_get r ''id'') = None"
proof -
  let ?r = "newSite e site"
  let ?st1 = "st\<lparr>sites := sites st @ [?r]\<rparr>"
  let ?st' = "?st1\<lparr>disk := Some (sites ?st1, activeSiteId ?st1)\<rparr>"
  have byname: "getSiteByName st (obj_get site ''name'') = None"
    using no_name by (simp add: getSiteByName_def find_none)
  have byurl: "getSiteByUrl st (obj_get site ''url'') = Inr None"
    using no_url by (simp add: getSiteByUrl_def url find_url_none)
  have add: "addSite e site st = (Inr ?r, ?st')"
    using nm url byname byurl wr by (simp add: addSite_def saveConfig_def)
  have g1: "getSiteById ?st' (obj_get ?r ''id'') = Some ?r"
    using fresh by (simp add: getSiteById_def find_snoc)
  have g2: "getSiteByName ?st' (obj_get site ''name'') = Some ?r"
    using no_name by (simp add: getSiteByName_def find_snoc obj_get_newSite_name)
  have g3: "getSiteByUrl ?st' (obj_get site ''url'') = Inr (Some ?r)"
    using no_url url by (simp add: getSiteByUrl_def find_url_snoc [where u = u] obj_get_newSite_url)
  have idx: "findIndex (\<lambda>s. obj_get s ''id'' = obj_get ?r ''id'') (sites ?st') = Some (length (sites st))"
    using fresh by (simp add: findIndex_snoc)
  have rm: "removeSite e' (obj_get ?r ''id'') ?st'
              = (Inr True, ?st'\<lparr>sites := sites st, disk := Some (sites st, activeSiteId st)\<rparr>)"
    unfolding removeSite_def idx using wr by (simp add: saveConfig_def)
  have g4: "getSiteById (snd (removeSite e' (obj_get ?r ''id'') ?st')) (obj_get ?r ''id'') = None"
    unfolding rm using fresh by (simp add: getSiteById_def find_none)
  have g5: "fst (removeSite e' (obj_get ?r ''id'') ?st') = Inr True"
    by (simp only: rm fst_conv)
  show ?thesis
    using add g1 g2 g3 g5 g4 by blast
qed

theorem add_then_lookup_witness:
  "\<exists>r st'. addSite env0 site_b store_a = (Inr r, st')
           \<and> getSiteById st' (obj_get r ''id'') = Some r
           \<and> getSiteByName st' (obj_get site_b ''name'') = Some r
           \<and> getSiteByUrl st' (obj_get site_b ''url'') = Inr (Some r)
           \<and> fst (removeSite env0 (obj_get r ''id'') st') = Inr True
           \<and> getSiteById (snd (removeSite env0 (obj_get r ''id'') st')) (obj_get r ''id'') = None"
  using add_then_lookup [of site_b "''https://b.test''" store_a env0 env0]
  by (simp add: site_b_def store_a_def site_a_def obj_get_def strip_slash_def env0_def newSite_def)

theorem add_duplicate_id_counterexample:
  "fst (addSite env0 site_b_id1 store_a) = Inr (newSite env0 site_b_id1)
   \<and> obj_get (newSite env0 site_b_id1) ''id'' = JStr ''1''
   \<and> getSiteById (snd (addSite env0 site_b_id1 store_a)) (JStr ''1'') = Some site_a
   \<and> site_a \<noteq> newSite env0 site_b_id1
   \<and> fst (removeSite env0 (JStr ''1'') (snd (addSite env0 site_b_id1 store_a))) = Inr True
   \<and> getSiteById (snd (removeSite env0 (JStr ''1'') (snd (addSite env0 site_b_id1 store_a)))) (JStr ''1'')
       = Some (newSite env0 site_b_id1)"
  by (simp add: addSite_def site_b_id1_def store_a_def site_a_def obj_get_def strip_slash_def
      getSiteByName_def getSiteByUrl_def getSiteById_def saveConfig_def env0_def newSite_def
      removeSite_def)

text \<open>
  What \<open>updateSite\<close> does where no conflict is found: an unknown id is refused and the
  store is left as it was; otherwise the record at the index found is replaced by the
  merge of the patch over it, stamped with \<open>updatedAt\<close>, the whole configuration is
  written, and the merged record is returned.
\<close>

lemma findIndex_none: "\<forall>x\<in>set xs. \<not> P x \<Longrightarrow> findIndex P xs = None"
  by (induction xs) auto

lemma updateSite_unknown_id:
  "\<forall>s\<in>set (sites st). obj_get s ''id'' \<noteq> i \<Longrightarrow>
   updateSite e i updates st = (Inl (Error (''[SiteStorage] Site not found: '' @ to_string i)), st)"
  by (simp add: updateSite_def findIndex_none site_not_found_def)

lemma updateSite_applies_patch:
  assumes "findIndex (\<lambda>s. obj_get s ''id'' = i) (sites st) = Some n"
    and "\<not> truthy (obj_get updates ''name'')
         \<or> obj_get updates ''name'' = obj_get (sites st ! n) ''name''
         \<or> getSiteByName st (obj_get updates ''name'') = None"
    and "\<not> truthy (obj_get updates ''url'')
         \<or> obj_get updates ''url'' = obj_get (sites st ! n) ''url''
         \<or> getSiteByUrl st (obj_get updates ''url'') = Inr None"
    and "write_error e = None"
  shows "updateSite e i updates st
           = (Inr (updatedSite e (sites st ! n) updates),
              st\<lparr>sites := (sites st)[n := updatedSite e (sites st ! n) updates],
                  disk := Some ((sites st)[n := updatedSite e (sites st ! n) updates],
                                activeSiteId st)\<rparr>)"
  using assms by (auto simp: updateSite_def saveConfig_def Let_def)

lemma obj_get_obj_set: "obj_get (obj_set k v ob) k' = (if k' = k then v else obj_get ob k')"
  by (induction ob) (auto simp: obj_get_def)

lemma obj_get_Cons: "obj_get ((a, b) # ob) k = (if k = a then b else obj_get ob k)"
  by (simp add: obj_get_def)

lemma obj_get_absent: "k \<notin> fst ` set ob \<Longrightarrow> obj_get ob k = JUndefined"
  by (induction ob) (auto simp: obj_get_def)

lemma obj_get_spread:
  "distinct (map fst source) \<Longrightarrow>
   obj_get (spread target source) k
     = (if k \<in> fst ` set source then obj_get source k else obj_get target k)"
proof (induction source arbitrary: target)
  case Nil
  then show ?case by (simp add: spread_def)
next
  case (Cons p source)
  have step: "spread target (p # source) = spread (obj_set (fst p) (snd p) target) source"
    by (simp add: spread_def)
  from Cons.prems have d: "distinct (map fst source)" and nin: "fst p \<notin> fst ` set source"
    by auto
  show ?case
    unfolding step Cons.IH [OF d] using nin
    by (cases p) (auto simp: obj_get_obj_set obj_get_Cons)
qed

lemma updatedSite_merge:
  assumes "distinct (map fst currentSite)" and "distinct (map fst updates)"
  shows "obj_get (updatedSite e currentSite updates) k
           = (if k = ''updatedAt'' then JStr (now1 e)
              else if k \<in> fst ` set updates then obj_get updates k
              else obj_get currentSite k)"
proof -
  have "obj_get (spread [] currentSite) k = obj_get currentSite k"
    using obj_get_spread [OF assms(1), of "[]" k] obj_get_absent [of k currentSite]
    by (cases "k \<in> fst ` set currentSite") (simp_all add: obj_get_absent)
  then show ?thesis
    by (simp add: updatedSite_def obj_get_obj_set obj_get_spread [OF assms(2)])
qed

text \<open>
  C5, at the failing input. The store holds one site with id 1 and url https://a.test.
  \<open>updateSite\<close> of that site with the url https://a.test/, which normalises to its own
  url, is refused: the lookup by url finds the record being updated.
\<close>

theorem updateSite_own_url_trailing_slash:
  "updateSite env0 (JStr ''1'') [(''url'', JStr ''https://a.test/'')] store_a
     = (Inl (Error (''[SiteStorage] A site with the URL '' @ dq @ ''https://a.test/'' @ dq
                    @ '' already exists'')), store_a)"
  by (simp add: updateSite_def store_a_def site_a_def obj_get_def strip_slash_def
      getSiteByName_def getSiteByUrl_def url_conflict_def)

text \<open>
  C10. The record that \<open>addSite\<close> returns is the one appended to the stored sites; its
  properties are exactly id, name, url, username, applicationPassword, createdAt and
  updatedAt, in this order, the middle four copied from the input; no other property of
  the input is in it.
\<close>

theorem addSite_record_fields:
  assumes "addSite e site st = (Inr r, st')"
  shows "map fst r = [''id'', ''name'', ''url'', ''username'', ''applicationPassword'',
                      ''createdAt'', ''updatedAt'']
         \<and> sites st' = sites st @ [r]
         \<and> obj_get r ''name'' = obj_get site ''name''
         \<and> obj_get r ''url'' = obj_get site ''url''
         \<and> obj_get r ''username'' = obj_get site ''username''
         \<and> obj_get r ''applicationPassword'' = obj_get site ''applicationPassword''"
proof -
  from assms have r: "r = newSite e site" and st': "sites st' = sites st @ [newSite e site]"
    by (auto simp: addSite_def saveConfig_def Let_def split: if_splits sum.splits option.splits)
  show ?thesis
    unfolding r st' by (simp add: newSite_def obj_get_def)
qed

theorem addSite_record_fields_witness:
  "addSite env0 site_b store_a
     = (Inr (newSite env0 site_b),
        store_a\<lparr>sites := [site_a, newSite env0 site_b],
                 disk := Some ([site_a, newSite env0 site_b], JUndefined)\<rparr>)
   \<and> map fst (newSite env0 site_b) = [''id'', ''name'', ''url'', ''username'', ''applicationPassword'',
                      ''createdAt'', ''updatedAt'']
   \<and> obj_get site_b ''consumerKey'' = JStr ''ck''
   \<and> obj_get (newSite env0 site_b) ''consumerKey'' = JUndefined"
proof -
  have a: "addSite env0 site_b store_a
     = (Inr (newSite env0 site_b),
        store_a\<lparr>sites := [site_a, newSite env0 site_b],
                 disk := Some ([site_a, newSite env0 site_b], JUndefined)\<rparr>)"
    by (simp add: addSite_def site_b_def store_a_def site_a_def obj_get_def strip_slash_def
      getSiteByName_def getSiteByUrl_def saveConfig_def env0_def)
  show ?thesis
    using a addSite_record_fields [OF a]
    by (simp add: site_b_def obj_get_def newSite_def)
qed

section \<open>Properties of the server and of the tool handlers\<close>

lemma handlers_range:
  "toolHandlers (foldl (\<lambda>s p. registerToolHandler s (fst p) (snd p)) srv ps) nm = Some h
   \<Longrightarrow> toolHandlers srv nm = Some h \<or> (nm, h) \<in> set ps"
proof (induction ps arbitrary: srv)
  case Nil
  then show ?case by simp
next
  case (Cons p ps)
  from Cons.prems
  have "toolHandlers (registerToolHandler srv (fst p) (snd p)) nm = Some h \<or> (nm, h) \<in> set ps"
    by (intro Cons.IH) simp
  then show ?case
    by (cases p) (auto simp: registerToolHandler_def split: if_splits)
qed

lemma handlers_miss:
  "nm \<notin> fst ` set ps \<Longrightarrow>
   toolHandlers (foldl (\<lambda>s p. registerToolHandler s (fst p) (snd p)) srv ps) nm = toolHandlers srv nm"
  by (induction ps arbitrary: srv) (auto simp: registerToolHandler_def)

text \<open>
  C7. Registering two tool definitions appends both, in this order, whatever their names:
  with the same name \<open>n\<close> the list returned for ListTools holds two more definitions
  named \<open>n\<close>. Registering two handlers under one name leaves the handler map as if
  only the second had been registered: the name is bound to the second handler and the
  second registration adds no key.
\<close>

theorem registration_asymmetry:
  "listTools (registerToolDefinition (registerToolDefinition srv d1) d2) = listTools srv @ [d1, d2]
   \<and> listTools (registerToolDefinitions srv [d1, d2]) = listTools srv @ [d1, d2]
   \<and> length (filter (\<lambda>d. name d = n)
        (listTools (registerToolDefinition
           (registerToolDefinition srv \<lparr>name = n, description = a1, inputSchema = s1\<rparr>)
           \<lparr>name = n, description = a2, inputSchema = s2\<rparr>)))
       = length (filter (\<lambda>d. name d = n) (listTools srv)) + 2
   \<and> toolHandlers (registerToolHandler (registerToolHandler srv n h1) n h2) n = Some h2
   \<and> registerToolHandler (registerToolHandler srv n h1) n h2 = registerToolHandler srv n h2
   \<and> dom (toolHandlers (registerToolHandler (registerToolHandler srv n h1) n h2))
       = dom (toolHandlers (registerToolHandler srv n h1))"
  by (simp add: listTools_def registerToolDefinition_def registerToolDefinitions_def
      registerToolHandler_def)

lemma server0_unknown: "toolHandlers server0 ''frobnicate'' = None"
  unfolding server0_def registerTools_def
  by (subst handlers_miss)
     (simp_all add: new_server_def site_handlers_def post_handlers_def page_handlers_def
        product_handlers_def order_handlers_def)

text \<open>
  C1, as amended. For a name with no registered handler the centralized CallTool handler
  raises an Error whose message is "Unknown tool: " followed by the name, and builds no
  envelope. The CallTool handler that registerWooProductTools installs, for a name that is
  not one of its tools and a request without \<open>next\<close>, returns the envelope with
  \<open>isError: true\<close>, status "error" and that message.
\<close>

theorem unknown_tool:
  "(toolHandlers srv nm = None \<longrightarrow>
      callTool srv nm args b e st = (Inl (Error (''Unknown tool: '' @ nm)), st))
   \<and> (nm \<notin> set product_tool_names \<longrightarrow>
      woo_product_callTool None nm args b e st
        = (Inr \<lparr>content = [\<lparr>item_type = ''text'',
                             item_text = [(''status'', PVal (JStr ''error'')),
                                          (''message'', PVal (JStr (''Unknown tool: '' @ nm)))]\<rparr>],
                 isError = Some True\<rparr>, st))"
  by (simp add: callTool_def woo_product_callTool_def error_envelope_def)

theorem unknown_tool_witness:
  "callTool server0 ''frobnicate'' (Some []) backend_ok env0 store_a
     = (Inl (Error ''Unknown tool: frobnicate''), store_a)
   \<and> woo_product_callTool None ''frobnicate'' (Some []) backend_ok env0 store_a
        = (Inr \<lparr>content = [\<lparr>item_type = ''text'',
                             item_text = [(''status'', PVal (JStr ''error'')),
                                          (''message'', PVal (JStr ''Unknown tool: frobnicate''))]\<rparr>],
                 isError = Some True\<rparr>, store_a)"
  using unknown_tool [of server0 "''frobnicate''" "Some []" backend_ok env0 store_a] server0_unknown
  by (simp add: product_tool_names_def)

theorem unknown_tool_raises_counterexample:
  "callTool server0 ''no_such_tool'' (Some [(''x'', JNum 1)]) backend_ok env0 store_empty
     = (Inl (Error ''Unknown tool: no_such_tool''), store_empty)"
proof -
  have "toolHandlers server0 ''no_such_tool'' = None"
    unfolding server0_def registerTools_def
    by (subst handlers_miss)
       (simp_all add: new_server_def site_handlers_def post_handlers_def page_handlers_def
          product_handlers_def order_handlers_def)
  then show ?thesis by (simp add: callTool_def)
qed

lemma server0_list_products: "toolHandlers server0 ''list_products'' = Some list_products_handler"
  unfolding server0_def registerTools_def
  by (simp add: new_server_def site_handlers_def post_handlers_def page_handlers_def
        product_handlers_def order_handlers_def registerToolHandler_def)

lemma list_products_handler_result:
  "list_products_handler (Some args) b e st =
     (Inr (error_envelope (if truthy (obj_get args ''site_id'')
                           then ''siteManager.createClientForWoocommerce is not a function''
                           else ''client.get is not a function'')), st)"
  by (simp add: list_products_handler_def woo_tool_def woo_client_def woo_request_def
      not_a_function_def catch_envelope_def)

text \<open>
  C3, at the failing input. \<open>list_products\<close> with \<open>per_page\<close> 10 and \<open>page\<close> 1, no
  \<open>site_id\<close>, and a store without active site: the response is an error envelope, but
  its message is that of the TypeError raised by calling \<open>get\<close> on \<open>false\<close>; the
  handler does not ask for the client of the active site, whose error is the second fact.
\<close>

theorem list_products_no_active_site:
  "callTool server0 ''list_products'' (Some [(''per_page'', JNum 10), (''page'', JNum 1)])
       backend_ok env0 store_empty
     = (Inr \<lparr>content = [\<lparr>item_type = ''text'',
                          item_text = [(''status'', PVal (JStr ''error'')),
                                       (''message'', PVal (JStr ''client.get is not a function''))]\<rparr>],
              isError = Some True\<rparr>, store_empty)
   \<and> createClientForActiveSite store_empty = Inl (Error ''[SiteManager] No active site set'')"
  by (simp add: callTool_def server0_list_products list_products_handler_result obj_get_def
      error_envelope_def createClientForActiveSite_def getActiveSite_def store_empty_def)

lemma legacy_list_products_no_active_site:
  "woo_product_callTool None ''list_products'' (Some [(''per_page'', JNum 10), (''page'', JNum 1)])
       b e store_empty
     = (Inr (error_envelope ''[SiteManager] No active site set''), store_empty)"
  by (simp add: woo_product_callTool_def product_tool_names_def wp_client_for_def obj_get_def
      createClientForActiveSite_def getActiveSite_def store_empty_def catch_envelope_def)

lemma shaped_error: "shaped (Inr (error_envelope m), st)"
  by (simp add: error_envelope_def)

lemma shaped_success: "shaped (Inr (success_envelope flds), st)"
  by (simp add: success_envelope_def)

lemma shaped_catch:
  "(\<And>env st. r = (Inr env, st) \<Longrightarrow> shaped (Inr env, st)) \<Longrightarrow> shaped (catch_envelope r)"
proof -
  assume h: "\<And>env st. r = (Inr env, st) \<Longrightarrow> shaped (Inr env, st)"
  obtain x st where r: "r = (x, st)" by (cases r)
  show ?thesis
  proof (cases x)
    case (Inl err)
    then show ?thesis using r shaped_error [of "message err" st] by (simp add: catch_envelope_def)
  next
    case (Inr env)
    then show ?thesis using r h [of env st] by (simp add: catch_envelope_def)
  qed
qed

lemma shaped_add_site: "shaped (add_site_handler (Some a) b e st)"
  unfolding add_site_handler_def option.case
  by (rule shaped_catch) (auto simp: success_envelope_def split: prod.splits sum.splits)

lemma shaped_list_sites: "shaped (list_sites_handler (Some a) b e st)"
  unfolding list_sites_handler_def
  by (rule shaped_catch) (auto simp: success_envelope_def Let_def)

lemma shaped_get_site: "shaped (get_site_handler (Some a) b e st)"
  unfolding get_site_handler_def option.case
  by (rule shaped_catch)
     (auto simp: success_envelope_def error_envelope_def Let_def split: option.splits if_splits)

lemma shaped_update_site: "shaped (update_site_handler (Some a) b e st)"
  unfolding update_site_handler_def option.case
  by (rule shaped_catch) (auto simp: success_envelope_def Let_def split: prod.splits sum.splits)

lemma shaped_remove_site: "shaped (remove_site_handler (Some a) b e st)"
  unfolding remove_site_handler_def option.case
  by (rule shaped_catch)
     (auto simp: success_envelope_def error_envelope_def split: prod.splits sum.splits if_splits)

lemma shaped_select_site: "shaped (select_site_handler (Some a) b e st)"
  unfolding select_site_handler_def option.case
  by (rule shaped_catch) (auto simp: success_envelope_def split: prod.splits sum.splits)

lemma shaped_get_active_site: "shaped (get_active_site_handler (Some a) b e st)"
  unfolding get_active_site_handler_def
  by (rule shaped_catch)
     (auto simp: success_envelope_def error_envelope_def split: option.splits)

lemma shaped_test_site_connectivity: "shaped (test_site_connectivity_handler (Some a) b e st)"
  unfolding test_site_connectivity_handler_def option.case
  by (rule shaped_catch) (auto simp: success_envelope_def split: sum.splits)

lemma shaped_get_site_info: "shaped (get_site_info_handler (Some a) b e st)"
  unfolding get_site_info_handler_def option.case
  by (rule shaped_catch) (auto simp: success_envelope_def split: sum.splits)

lemma shaped_woo_tool: "shaped (woo_tool expr m path data flds args b e st)"
  unfolding woo_tool_def
  by (rule shaped_catch) (auto simp: success_envelope_def split: sum.splits option.splits)

lemma shaped_list_products: "shaped (list_products_handler (Some a) b e st)"
  unfolding list_products_handler_def by (rule shaped_woo_tool)

lemma shaped_create_product: "shaped (create_product_handler (Some a) b e st)"
  unfolding create_product_handler_def by (rule shaped_woo_tool)

lemma shaped_update_product: "shaped (update_product_handler (Some a) b e st)"
  unfolding update_product_handler_def by (rule shaped_woo_tool)

lemma shaped_delete_product: "shaped (delete_product_handler (Some a) b e st)"
  unfolding delete_product_handler_def by (rule shaped_woo_tool)

lemma shaped_list_orders: "shaped (list_orders_handler (Some a) b e st)"
  unfolding list_orders_handler_def by (rule shaped_woo_tool)

lemma shaped_create_order: "shaped (create_order_handler (Some a) b e st)"
  unfolding create_order_handler_def by (rule shaped_woo_tool)

lemma shaped_update_order: "shaped (update_order_handler (Some a) b e st)"
  unfolding update_order_handler_def by (rule shaped_woo_tool)

lemma shaped_delete_order: "shaped (delete_order_handler (Some a) b e st)"
  unfolding delete_order_handler_def by (rule shaped_woo_tool)

lemma wp_tool_present:
  "wp_tool tool logged (Some a) b e st =
     catch_envelope
       (case wp_client_for a st of
          Inl err \<Rightarrow> (Inl err, st)
        | Inr client \<Rightarrow>
            (case rest_call b tool client a of
               Inl err \<Rightarrow> (Inl err, st)
             | Inr flds \<Rightarrow> (Inr (success_envelope flds), st)))"
  by (simp add: wp_tool_def)

lemma shaped_wp_tool: "shaped (wp_tool tool logged (Some a) b e st)"
  unfolding wp_tool_present
  by (rule shaped_catch) (auto simp: success_envelope_def split: sum.splits)

lemma shaped_registered:
  assumes "(nm, h) \<in> set (site_handlers @ post_handlers @ page_handlers @ product_handlers
                           @ order_handlers)"
  shows "shaped (h (Some a) b e st)"
proof -
  from assms consider
      "(nm, h) \<in> set site_handlers" | "(nm, h) \<in> set post_handlers"
    | "(nm, h) \<in> set page_handlers" | "(nm, h) \<in> set product_handlers"
    | "(nm, h) \<in> set order_handlers"
    by auto
  then show ?thesis
  proof cases
    case 1
    then have "h \<in> {add_site_handler, list_sites_handler, get_site_handler, update_site_handler,
                    remove_site_handler, select_site_handler, get_active_site_handler,
                    test_site_connectivity_handler, get_site_info_handler}"
      by (auto simp: site_handlers_def)
    then show ?thesis
      using shaped_add_site [of a b e st] shaped_list_sites [of a b e st]
        shaped_get_site [of a b e st] shaped_update_site [of a b e st]
        shaped_remove_site [of a b e st] shaped_select_site [of a b e st]
        shaped_get_active_site [of a b e st] shaped_test_site_connectivity [of a b e st]
        shaped_get_site_info [of a b e st]
      by (elim insertE emptyE) (simp_all only:)
  next
    case 2
    then obtain logged where "h = wp_tool nm logged" by (auto simp: post_handlers_def)
    then show ?thesis using shaped_wp_tool [of nm logged a b e st] by (simp only:)
  next
    case 3
    then obtain logged where "h = wp_tool nm logged" by (auto simp: page_handlers_def)
    then show ?thesis using shaped_wp_tool [of nm logged a b e st] by (simp only:)
  next
    case 4
    then have "h \<in> {list_products_handler, create_product_handler, update_product_handler,
                    delete_product_handler}"
      by (auto simp: product_handlers_def)
    then show ?thesis
      using shaped_list_products [of a b e st] shaped_create_product [of a b e st]
        shaped_update_product [of a b e st] shaped_delete_product [of a b e st]
      by (elim insertE emptyE) (simp_all only:)
  next
    case 5
    then have "h \<in> {list_orders_handler, create_order_handler, update_order_handler,
                    delete_order_handler}"
      by (auto simp: order_handlers_def)
    then show ?thesis
      using shaped_list_orders [of a b e st] shaped_create_order [of a b e st]
        shaped_update_order [of a b e st] shaped_delete_order [of a b e st]
      by (elim insertE emptyE) (simp_all only:)
  qed
qed

text \<open>
  C8. For every handler registered by \<open>registerTools\<close> and every argument object that
  the request carries, the CallTool response is an envelope with one content item of type
  "text" whose encoded object starts with the property \<open>status\<close>: either "success",
  with no \<open>isError\<close> member, or "error", with \<open>isError: true\<close> and the \<open>message\<close> as
  the only other property.
\<close>

theorem registered_handler_envelope:
  assumes "toolHandlers (registerTools (new_server :: ('d handler, 's) server)) nm = Some h"
    and "args = Some a"
  shows "\<exists>s flds ie st'.
           callTool (registerTools (new_server :: ('d handler, 's) server)) nm args b e st
             = (Inr \<lparr>content = [\<lparr>item_type = ''text'',
                                  item_text = (''status'', PVal (JStr s)) # flds\<rparr>],
                      isError = ie\<rparr>, st')
           \<and> ((s = ''success'' \<and> ie = None)
               \<or> (s = ''error'' \<and> ie = Some True \<and> (\<exists>m. flds = [(''message'', PVal (JStr m))])))"
proof -
  from handlers_range [OF assms(1) [unfolded registerTools_def]]
  have "(nm, h) \<in> set (site_handlers @ post_handlers @ page_handlers @ product_handlers
                              @ order_handlers)"
    by (simp add: new_server_def)
  from shaped_registered [OF this, of a b e st] show ?thesis
    using assms by (simp add: callTool_def)
qed

lemma server0_get_site: "toolHandlers server0 ''get_site'' = Some get_site_handler"
  unfolding server0_def registerTools_def
  by (simp add: new_server_def site_handlers_def post_handlers_def page_handlers_def
        product_handlers_def order_handlers_def registerToolHandler_def)

theorem registered_handler_envelope_witness:
  "\<exists>s flds ie st'.
      callTool (registerTools (new_server :: (unit handler, unit) server)) ''get_site''
          (Some [(''id'', JStr ''1'')]) backend_ok env0 store_a
        = (Inr \<lparr>content = [\<lparr>item_type = ''text'',
                             item_text = (''status'', PVal (JStr s)) # flds\<rparr>],
                 isError = ie\<rparr>, st')
      \<and> ((s = ''success'' \<and> ie = None)
          \<or> (s = ''error'' \<and> ie = Some True \<and> (\<exists>m. flds = [(''message'', PVal (JStr m))])))"
  by (rule registered_handler_envelope [OF server0_get_site [unfolded server0_def] refl])

text \<open>
  Requests without arguments. The dispatcher hands \<open>undefined\<close> to the handler. Fifteen
  of the registered handlers (seven site tools, and every post and page tool except
  \<open>list_posts\<close> and \<open>list_pages\<close>) read a property of it for their log line before
  \<open>try\<close>: the TypeError leaves the handler and the dispatcher. The other twelve read it
  inside \<open>try\<close>, or not at all, and answer with an envelope.
\<close>

lemma handlers_lookup:
  "distinct (map fst ps) \<Longrightarrow> (nm, h) \<in> set ps \<Longrightarrow>
   toolHandlers (foldl (\<lambda>s p. registerToolHandler s (fst p) (snd p)) srv ps) nm = Some h"
proof (induction ps arbitrary: srv)
  case Nil
  then show ?case by simp
next
  case (Cons p ps)
  show ?case
  proof (cases "(nm, h) = p")
    case True
    with Cons.prems have miss: "nm \<notin> fst ` set ps" by force
    have "toolHandlers (foldl (\<lambda>s p. registerToolHandler s (fst p) (snd p)) srv (p # ps)) nm
            = toolHandlers (foldl (\<lambda>s p. registerToolHandler s (fst p) (snd p))
                              (registerToolHandler srv (fst p) (snd p)) ps) nm"
      by simp
    also have "\<dots> = toolHandlers (registerToolHandler srv (fst p) (snd p)) nm"
      by (rule handlers_miss [OF miss])
    also have "\<dots> = Some h"
      using True by (auto simp: registerToolHandler_def)
    finally show ?thesis .
  next
    case False
    with Cons.prems have "distinct (map fst ps)" and "(nm, h) \<in> set ps" by auto
    from Cons.IH [OF this] show ?thesis by simp
  qed
qed

lemma registered_names_distinct:
  "distinct (map fst (site_handlers @ post_handlers @ page_handlers @ product_handlers
                      @ order_handlers :: (string \<times> 'd handler) list))"
  by (simp add: site_handlers_def post_handlers_def page_handlers_def product_handlers_def
      order_handlers_def)

lemma callTool_registered:
  assumes "(nm, h) \<in> set (site_handlers @ post_handlers @ page_handlers @ product_handlers
                           @ order_handlers)"
  shows "callTool (registerTools (new_server :: ('d handler, 's) server)) nm args b e st
           = h args b e st"
proof -
  have "toolHandlers (registerTools (new_server :: ('d handler, 's) server)) nm = Some h"
    unfolding registerTools_def
    by (rule handlers_lookup [OF registered_names_distinct assms])
  then show ?thesis by (simp add: callTool_def)
qed

lemma absent_arguments_thrown:
  "add_site_handler None b e st = (Inl (undefined_read ''name''), st)"
  "get_site_handler None b e st = (Inl (undefined_read ''id''), st)"
  "update_site_handler None b e st = (Inl (undefined_read ''id''), st)"
  "remove_site_handler None b e st = (Inl (undefined_read ''id''), st)"
  "select_site_handler None b e st = (Inl (undefined_read ''id''), st)"
  "test_site_connectivity_handler None b e st = (Inl (undefined_read ''id''), st)"
  "get_site_info_handler None b e st = (Inl (undefined_read ''id''), st)"
  "wp_tool tool (Some k) None b e st = (Inl (undefined_read k), st)"
  by (simp_all add: add_site_handler_def get_site_handler_def update_site_handler_def
      remove_site_handler_def select_site_handler_def test_site_connectivity_handler_def
      get_site_info_handler_def wp_tool_def)

lemma absent_arguments_enveloped:
  "shaped (list_sites_handler None b e st)"
  "shaped (get_active_site_handler None b e st)"
  "shaped (wp_tool tool None None b e st)"
  "shaped (woo_tool expr m path data flds None b e st)"
proof -
  show "shaped (list_sites_handler None b e st)"
    unfolding list_sites_handler_def
    by (rule shaped_catch) (auto simp: success_envelope_def split: if_splits)
  show "shaped (get_active_site_handler None b e st)"
    unfolding get_active_site_handler_def
    by (rule shaped_catch) (auto simp: error_envelope_def split: option.splits)
  have "wp_tool tool None None b e st = catch_envelope (Inl (undefined_read ''site_id''), st)"
    by (simp add: wp_tool_def)
  then show "shaped (wp_tool tool None None b e st)"
    using shaped_error [of "message (undefined_read ''site_id'')" st]
    by (simp add: catch_envelope_def)
  show "shaped (woo_tool expr m path data flds None b e st)"
    by (rule shaped_woo_tool)
qed

lemma add_site_without_arguments:
  "callTool server0 ''add_site'' None backend_ok env0 store_a
     = (Inl (TypeError (''Cannot read properties of undefined (reading '' @ sq @ ''name'' @ sq @ '')'')),
        store_a)"
proof -
  have "callTool (registerTools (new_server :: (unit handler, unit) server)) ''add_site'' None
            backend_ok env0 store_a
          = add_site_handler None backend_ok env0 store_a"
    by (rule callTool_registered) (simp add: site_handlers_def)
  then show ?thesis
    by (simp add: server0_def absent_arguments_thrown undefined_read_def)
qed

lemma get_post_without_arguments:
  "callTool server0 ''get_post'' None backend_ok env0 store_a
     = (Inl (TypeError (''Cannot read properties of undefined (reading '' @ sq @ ''post_id'' @ sq @ '')'')),
        store_a)"
proof -
  have "callTool (registerTools (new_server :: (unit handler, unit) server)) ''get_post'' None
            backend_ok env0 store_a
          = wp_tool ''get_post'' (Some ''post_id'') None backend_ok env0 store_a"
    by (rule callTool_registered) (simp add: post_handlers_def)
  then show ?thesis
    by (simp add: server0_def absent_arguments_thrown undefined_read_def)
qed

lemma filterCredentials_view:
  "inc \<in> {JUndefined, JBool False, JBool True} \<Longrightarrow>
   filterCredentials (Some s) inc = Some (site_view inc s)"
  by (auto simp: filterCredentials_def obj_omit_def Let_def)


text \<open>
  C9. When \<open>includeCredentials\<close> is absent, false or true, every site object in a
  successful response of add_site, list_sites, get_site, update_site, select_site and
  get_active_site is the record that the site manager returned, in full when
  \<open>includeCredentials\<close> is true and otherwise without its \<open>applicationPassword\<close>
  property, every other property (username among them) kept as it is.
\<close>

theorem site_responses_filter_credentials:
  assumes "obj_get args ''includeCredentials'' \<in> {JUndefined, JBool False, JBool True}"
  shows
    "(manager_addSite b e args st = (Inr site, st') \<longrightarrow>
        add_site_handler (Some args) b e st =
          (Inr (success_envelope
             [(''message'', PVal (JStr (''Site '' @ dq @ to_string (obj_get args ''name'') @ dq
                                         @ '' added successfully''))),
              (''site'', PSite (Some (site_view (obj_get args ''includeCredentials'') site)))]), st'))
     \<and> list_sites_handler (Some args) b e st =
          (Inr (success_envelope
             [(''count'', PVal (JNum (int (length (sites st))))),
              (''sites'', PSites (map (\<lambda>s. Some (site_view (obj_get args ''includeCredentials'') s))
                                      (sites st)))]), st)
     \<and> ((if truthy (obj_get args ''id'') then getSiteById st (obj_get args ''id'')
          else if truthy (obj_get args ''name'') then getSiteByName st (obj_get args ''name'')
          else None) = Some site \<longrightarrow>
        get_site_handler (Some args) b e st =
          (Inr (success_envelope
             [(''site'', PSite (Some (site_view (obj_get args ''includeCredentials'') site)))]), st))
     \<and> (manager_updateSite b e (obj_get args ''id'') (obj_omit [''id''] args) st = (Inr site, st') \<longrightarrow>
        update_site_handler (Some args) b e st =
          (Inr (success_envelope
             [(''message'', PVal (JStr (''Site '' @ dq @ to_string (obj_get site ''name'') @ dq
                                         @ '' updated successfully''))),
              (''site'', PSite (Some (site_view (obj_get args ''includeCredentials'') site)))]), st'))
     \<and> (setActiveSite e (obj_get args ''id'') st = (Inr site, st') \<longrightarrow>
        select_site_handler (Some args) b e st =
          (Inr (success_envelope
             [(''message'', PVal (JStr (''Site '' @ dq @ to_string (obj_get site ''name'') @ dq
                                         @ '' selected as active site''))),
              (''site'', PSite (Some (site_view (obj_get args ''includeCredentials'') site)))]), st'))
     \<and> (getActiveSite st = Some site \<longrightarrow>
        get_active_site_handler (Some args) b e st =
          (Inr (success_envelope
             [(''site'', PSite (Some (site_view (obj_get args ''includeCredentials'') site)))]), st))"
proof -
  note fc = filterCredentials_view [OF assms]
  have 1: "manager_addSite b e args st = (Inr site, st') \<longrightarrow>
        add_site_handler (Some args) b e st =
          (Inr (success_envelope
             [(''message'', PVal (JStr (''Site '' @ dq @ to_string (obj_get args ''name'') @ dq
                                         @ '' added successfully''))),
              (''site'', PSite (Some (site_view (obj_get args ''includeCredentials'') site)))]), st')"
    by (simp add: add_site_handler_def catch_envelope_def fc)
  have 2: "list_sites_handler (Some args) b e st =
          (Inr (success_envelope
             [(''count'', PVal (JNum (int (length (sites st))))),
              (''sites'', PSites (map (\<lambda>s. Some (site_view (obj_get args ''includeCredentials'') s))
                                      (sites st)))]), st)"
    by (simp add: list_sites_handler_def catch_envelope_def fc getAllSites_def Let_def)
  have 3: "(if truthy (obj_get args ''id'') then getSiteById st (obj_get args ''id'')
          else if truthy (obj_get args ''name'') then getSiteByName st (obj_get args ''name'')
          else None) = Some site \<longrightarrow>
        get_site_handler (Some args) b e st =
          (Inr (success_envelope
             [(''site'', PSite (Some (site_view (obj_get args ''includeCredentials'') site)))]), st)"
    by (simp add: get_site_handler_def catch_envelope_def fc Let_def)
  have 4: "manager_updateSite b e (obj_get args ''id'') (obj_omit [''id''] args) st = (Inr site, st') \<longrightarrow>
        update_site_handler (Some args) b e st =
          (Inr (success_envelope
             [(''message'', PVal (JStr (''Site '' @ dq @ to_string (obj_get site ''name'') @ dq
                                         @ '' updated successfully''))),
              (''site'', PSite (Some (site_view (obj_get args ''includeCredentials'') site)))]), st')"
    by (simp add: update_site_handler_def catch_envelope_def fc Let_def)
  have 5: "setActiveSite e (obj_get args ''id'') st = (Inr site, st') \<longrightarrow>
        select_site_handler (Some args) b e st =
          (Inr (success_envelope
             [(''message'', PVal (JStr (''Site '' @ dq @ to_string (obj_get site ''name'') @ dq
                                         @ '' selected as active site''))),
              (''site'', PSite (Some (site_view (obj_get args ''includeCredentials'') site)))]), st')"
    by (simp add: select_site_handler_def catch_envelope_def fc)
  have 6: "getActiveSite st = Some site \<longrightarrow>
        get_active_site_handler (Some args) b e st =
          (Inr (success_envelope
             [(''site'', PSite (Some (site_view (obj_get args ''includeCredentials'') site)))]), st)"
    by (simp add: get_active_site_handler_def catch_envelope_def fc)
  from 1 2 3 4 5 6 show ?thesis by blast
qed

theorem site_responses_filter_credentials_witness:
  "add_site_handler (Some add_args) backend_ok env0 store_a
     = (Inr (success_envelope
          [(''message'', PVal (JStr (''Site '' @ dq @ ''B'' @ dq @ '' added successfully''))),
           (''site'', PSite (Some (site_view JUndefined (newSite env0 add_args))))]),
        snd (manager_addSite backend_ok env0 add_args store_a))
   \<and> obj_get (newSite env0 add_args) ''applicationPassword'' = JStr ''pw''
   \<and> obj_get (site_view JUndefined (newSite env0 add_args)) ''applicationPassword'' = JUndefined
   \<and> obj_get (site_view JUndefined (newSite env0 add_args)) ''username'' = JStr ''bob''
   \<and> list_sites_handler (Some [(''includeCredentials'', JBool False)]) backend_ok env0 store_a
     = (Inr (success_envelope
          [(''count'', PVal (JNum 1)),
           (''sites'', PSites [Some (site_view (JBool False) site_a)])]), store_a)
   \<and> get_site_handler (Some [(''id'', JStr ''1''), (''includeCredentials'', JBool True)]) backend_ok env0 store_a
     = (Inr (success_envelope [(''site'', PSite (Some site_a))]), store_a)
   \<and> update_site_handler (Some update_args) backend_ok env0 store_a
     = (Inr (success_envelope
          [(''message'', PVal (JStr (''Site '' @ dq @ ''A'' @ dq @ '' updated successfully''))),
           (''site'', PSite (Some (site_view JUndefined
               (updatedSite env0 site_a [(''username'', JStr ''amy'')]))))]),
        snd (manager_updateSite backend_ok env0 (JStr ''1'') (obj_omit [''id''] update_args) store_a))
   \<and> select_site_handler (Some [(''id'', JStr ''1'')]) backend_ok env0 store_a
     = (Inr (success_envelope
          [(''message'', PVal (JStr (''Site '' @ dq @ ''A'' @ dq @ '' selected as active site''))),
           (''site'', PSite (Some (site_view JUndefined site_a)))]),
        snd (setActiveSite env0 (JStr ''1'') store_a))
   \<and> get_active_site_handler (Some []) backend_ok env0 store_active
     = (Inr (success_envelope [(''site'', PSite (Some (site_view JUndefined site_a)))]), store_active)"
proof -
  have a: "manager_addSite backend_ok env0 add_args store_a
             = (Inr (newSite env0 add_args), snd (manager_addSite backend_ok env0 add_args store_a))"
    by (simp add: manager_addSite_def addSite_def add_args_def backend_ok_def store_a_def site_a_def
        obj_get_def strip_slash_def getSiteByName_def getSiteByUrl_def saveConfig_def env0_def)
  have 1: "add_site_handler (Some add_args) backend_ok env0 store_a
     = (Inr (success_envelope
          [(''message'', PVal (JStr (''Site '' @ dq @ ''B'' @ dq @ '' added successfully''))),
           (''site'', PSite (Some (site_view JUndefined (newSite env0 add_args))))]),
        snd (manager_addSite backend_ok env0 add_args store_a))"
    using a site_responses_filter_credentials [where args = add_args and b = backend_ok
        and e = env0 and st = store_a and site = "newSite env0 add_args"
        and st' = "snd (manager_addSite backend_ok env0 add_args store_a)"]
    by (simp add: add_args_def obj_get_def)
  have 2: "obj_get (newSite env0 add_args) ''applicationPassword'' = JStr ''pw''"
    by (simp add: newSite_def add_args_def obj_get_def)
  have 3: "obj_get (site_view JUndefined (newSite env0 add_args)) ''applicationPassword'' = JUndefined"
    by (simp add: obj_get_def newSite_def add_args_def)
  have 4: "obj_get (site_view JUndefined (newSite env0 add_args)) ''username'' = JStr ''bob''"
    by (simp add: obj_get_def newSite_def add_args_def)
  have 5: "list_sites_handler (Some [(''includeCredentials'', JBool False)]) backend_ok env0 store_a
     = (Inr (success_envelope
          [(''count'', PVal (JNum 1)),
           (''sites'', PSites [Some (site_view (JBool False) site_a)])]), store_a)"
    using site_responses_filter_credentials [where args = "[(''includeCredentials'', JBool False)]"
        and b = backend_ok and e = env0 and st = store_a]
    by (simp add: obj_get_def store_a_def)
  have 6: "get_site_handler (Some [(''id'', JStr ''1''), (''includeCredentials'', JBool True)]) backend_ok env0 store_a
     = (Inr (success_envelope [(''site'', PSite (Some site_a))]), store_a)"
    using site_responses_filter_credentials [where
        args = "[(''id'', JStr ''1''), (''includeCredentials'', JBool True)]"
        and b = backend_ok and e = env0 and st = store_a and site = site_a]
    by (simp add: obj_get_def store_a_def getSiteById_def site_a_def)
  have u: "manager_updateSite backend_ok env0 (obj_get update_args ''id'') (obj_omit [''id''] update_args) store_a
      = (Inr (updatedSite env0 site_a [(''username'', JStr ''amy'')]),
         snd (manager_updateSite backend_ok env0 (JStr ''1'') (obj_omit [''id''] update_args) store_a))"
    by (simp add: manager_updateSite_def updateSite_def update_args_def obj_omit_def store_a_def
        getSiteById_def site_a_def obj_get_def js_or_def saveConfig_def env0_def Let_def)
  have n: "obj_get (updatedSite env0 site_a [(''username'', JStr ''amy'')]) ''name'' = JStr ''A''"
    by (simp add: updatedSite_def spread_def site_a_def obj_get_def)
  have 7: "update_site_handler (Some update_args) backend_ok env0 store_a
     = (Inr (success_envelope
          [(''message'', PVal (JStr (''Site '' @ dq @ ''A'' @ dq @ '' updated successfully''))),
           (''site'', PSite (Some (site_view JUndefined
               (updatedSite env0 site_a [(''username'', JStr ''amy'')]))))]),
        snd (manager_updateSite backend_ok env0 (JStr ''1'') (obj_omit [''id''] update_args) store_a))"
    using u n site_responses_filter_credentials [where args = update_args and b = backend_ok
        and e = env0 and st = store_a and site = "updatedSite env0 site_a [(''username'', JStr ''amy'')]"
        and st' = "snd (manager_updateSite backend_ok env0 (JStr ''1'') (obj_omit [''id''] update_args) store_a)"]
    by (simp add: update_args_def obj_get_def)
  have s: "setActiveSite env0 (JStr ''1'') store_a = (Inr site_a, snd (setActiveSite env0 (JStr ''1'') store_a))"
    by (simp add: setActiveSite_def store_a_def getSiteById_def site_a_def obj_get_def
        saveConfig_def env0_def)
  have 8: "select_site_handler (Some [(''id'', JStr ''1'')]) backend_ok env0 store_a
     = (Inr (success_envelope
          [(''message'', PVal (JStr (''Site '' @ dq @ ''A'' @ dq @ '' selected as active site''))),
           (''site'', PSite (Some (site_view JUndefined site_a)))]),
        snd (setActiveSite env0 (JStr ''1'') store_a))"
    using s site_responses_filter_credentials [where args = "[(''id'', JStr ''1'')]" and b = backend_ok
        and e = env0 and st = store_a and site = site_a
        and st' = "snd (setActiveSite env0 (JStr ''1'') store_a)"]
    by (simp add: obj_get_def) (simp add: site_a_def)
  have 9: "get_active_site_handler (Some []) backend_ok env0 store_active
     = (Inr (success_envelope [(''site'', PSite (Some (site_view JUndefined site_a)))]), store_active)"
    using site_responses_filter_credentials [where args = "[]" and b = backend_ok
        and e = env0 and st = store_active and site = site_a]
    by (simp add: obj_get_def getActiveSite_def store_active_def getSiteById_def site_a_def)
  from 1 2 3 4 5 6 7 8 9 show ?thesis by (intro conjI)
qed





end
